theory Spec2Isabelle
  imports Main "HOL-Library.Monad_Syntax"
begin

text \<open>
  A shallow embedding of the AKS multi-tenant kubectl tool:
  \<^verbatim>\<open>holmes/plugins/toolsets/aks_base.py\<close> (\<^verbatim>\<open>AzureResourceContext\<close>, \<^verbatim>\<open>BaseAKSTool\<close>) and
  \<^verbatim>\<open>holmes/plugins/toolsets/aks_kubectl.py\<close> (\<^verbatim>\<open>CallKubectl\<close>).
\<close>

section \<open>Strings\<close>

text \<open>
  A Python \<^verbatim>\<open>str\<close> is a \<open>string\<close> whose characters are the code points 0..255.
  On that range \<^verbatim>\<open>str.isspace\<close> holds of 9..13, 28..32, 133 and 160, and
  \<^verbatim>\<open>str.lower\<close> moves A..Z and 192..222 (without 215) up by 32. Code points above 255
  are outside the model.
\<close>

definition str_isspace :: "char \<Rightarrow> bool" where
  "str_isspace c =
     (let n = (of_char c :: nat)
      in (9 \<le> n \<and> n \<le> 13) \<or> (28 \<le> n \<and> n \<le> 32) \<or> n = 133 \<or> n = 160)"

definition lower_char :: "char \<Rightarrow> char" where
  "lower_char c =
     (let n = (of_char c :: nat)
      in if (65 \<le> n \<and> n \<le> 90) \<or> (192 \<le> n \<and> n \<le> 222 \<and> n \<noteq> 215)
         then char_of (n + 32) else c)"

definition str_lower :: "string \<Rightarrow> string" where
  "str_lower s = map lower_char s"

definition str_strip :: "string \<Rightarrow> string" where
  "str_strip s = rev (dropWhile str_isspace (rev (dropWhile str_isspace s)))"

text \<open>
  \<^verbatim>\<open>str.split()\<close> with no argument: the maximal runs of non-whitespace characters.
\<close>

fun split_from :: "string \<Rightarrow> string \<Rightarrow> string list" where
  "split_from cur [] = (if cur = [] then [] else [cur])"
| "split_from cur (c # cs) =
     (if str_isspace c
      then (if cur = [] then split_from [] cs else cur # split_from [] cs)
      else split_from (cur @ [c]) cs)"

definition str_split :: "string \<Rightarrow> string list" where
  "str_split s = split_from [] s"

definition startswith :: "string \<Rightarrow> string \<Rightarrow> bool" where
  "startswith s p = (take (length p) s = p)"

text \<open>\<^verbatim>\<open>str(n)\<close> for an integer, as an f-string prints it.\<close>

fun str_nat :: "nat \<Rightarrow> string" where
  "str_nat n =
     (if n < 10 then [char_of (48 + n)]
      else str_nat (n div 10) @ [char_of (48 + n mod 10)])"

declare str_nat.simps [simp del]

definition str_int :: "int \<Rightarrow> string" where
  "str_int i = (if i < 0 then CHR ''-'' # str_nat (nat (- i)) else str_nat (nat i))"

section \<open>The resource identifier pattern\<close>

text \<open>
  \<^verbatim>\<open>RESOURCE_ID_PATTERN\<close> is the regular expression
  \<^verbatim>\<open>^/subscriptions/([^/]+)/resourceGroups/([^/]+)/providers/([^/]+)/([^/]+)/([^/]+)$\<close>
  compiled with \<^verbatim>\<open>re.IGNORECASE\<close>. A literal matches character by character up to case;
  a group \<^verbatim>\<open>[^/]+\<close> takes the longest non-empty run without a slash (what follows a group
  is a slash or the end, so no shorter run can succeed); \<^verbatim>\<open>$\<close> holds at the end and
  before a final newline.
\<close>

fun match_literal :: "string \<Rightarrow> string \<Rightarrow> string option" where
  "match_literal [] s = Some s"
| "match_literal (p # ps) [] = None"
| "match_literal (p # ps) (c # cs) =
     (if lower_char c = lower_char p then match_literal ps cs else None)"

definition match_segment :: "string \<Rightarrow> (string \<times> string) option" where
  "match_segment s =
     (case takeWhile (\<lambda>c. c \<noteq> CHR ''/'') s of
        [] \<Rightarrow> None
      | g \<Rightarrow> Some (g, dropWhile (\<lambda>c. c \<noteq> CHR ''/'') s))"

definition match_end :: "string \<Rightarrow> bool" where
  "match_end s = (s = [] \<or> s = [CHR 0x0A])"

definition RESOURCE_ID_PATTERN ::
  "string \<Rightarrow> (string \<times> string \<times> string \<times> string \<times> string) option" where
  "RESOURCE_ID_PATTERN s =
     do {
       r1 \<leftarrow> match_literal ''/subscriptions/'' s;
       (subscription, r2) \<leftarrow> match_segment r1;
       r3 \<leftarrow> match_literal ''/resourceGroups/'' r2;
       (resource_group, r4) \<leftarrow> match_segment r3;
       r5 \<leftarrow> match_literal ''/providers/'' r4;
       (provider, r6) \<leftarrow> match_segment r5;
       r7 \<leftarrow> match_literal ''/'' r6;
       (resource_type, r8) \<leftarrow> match_segment r7;
       r9 \<leftarrow> match_literal ''/'' r8;
       (resource_name, r10) \<leftarrow> match_segment r9;
       if match_end r10
       then Some (subscription, resource_group, provider, resource_type, resource_name)
       else None
     }"

definition parse_resource_id :: "string \<Rightarrow> (string \<times> string \<times> string) option" where
  "parse_resource_id rid =
     (if rid = [] then None
      else case RESOURCE_ID_PATTERN (str_strip rid) of
             None \<Rightarrow> None
           | Some (subscription, resource_group, provider, resource_type, resource_name) \<Rightarrow>
               Some (subscription, resource_group, resource_name))"

section \<open>Exceptions and dictionaries\<close>

datatype exn =
    ValueError string
  | ImportError string
  | NotImplementedError string
  | IndexError string
  | TimeoutExpired string
  | JSONDecodeError string
  | RecursionError string
  | OtherException string

text \<open>\<^verbatim>\<open>str(e)\<close>: the message an exception carries.\<close>

fun str_exn :: "exn \<Rightarrow> string" where
  "str_exn (ValueError m) = m"
| "str_exn (ImportError m) = m"
| "str_exn (NotImplementedError m) = m"
| "str_exn (IndexError m) = m"
| "str_exn (TimeoutExpired m) = m"
| "str_exn (JSONDecodeError m) = m"
| "str_exn (RecursionError m) = m"
| "str_exn (OtherException m) = m"

text \<open>
  The request context and the tool parameters are dictionaries from strings to strings,
  as the request context schema in the docstring of \<^verbatim>\<open>AzureResourceContext\<close> and the
  parameter declaration of \<^verbatim>\<open>CallKubectl\<close> give them. \<^verbatim>\<open>d.get(k)\<close> is \<open>dict_get\<close>,
  \<^verbatim>\<open>d.get(k, v)\<close> is \<open>dict_get_default\<close>; a dictionary is falsy when it has no entry.
\<close>

type_synonym dict = "(string \<times> string) list"

definition dict_get :: "dict \<Rightarrow> string \<Rightarrow> string option" where
  "dict_get d k = map_of d k"

definition dict_get_default :: "dict \<Rightarrow> string \<Rightarrow> string \<Rightarrow> string" where
  "dict_get_default d k v = (case map_of d k of None \<Rightarrow> v | Some x \<Rightarrow> x)"

section \<open>AzureResourceContext\<close>

record AzureResourceContext =
  cloud :: string
  resource_id :: string
  access_token :: string
  subscription_id :: string
  resource_group :: string
  resource_name :: string
  tenant_id :: "string option"



section \<open>BaseAKSTool: extracting the context\<close>

definition missing_field_message :: "string \<Rightarrow> string" where
  "missing_field_message field =
     ''Azure multi-tenant request missing '' @ [CHR 0x27] @ field @ [CHR 0x27] @ '' field. '' @
     ''Request context must include: cloud='' @ [CHR 0x27] @ ''azure'' @ [CHR 0x27] @
     '', resource_id, access_token''"

definition parse_failure_message :: "string \<Rightarrow> string" where
  "parse_failure_message rid =
     ''Failed to parse Azure resource_id: '' @ rid @ ''. '' @
     ''Expected format: /subscriptions/{sub}/resourceGroups/{rg}/providers/{provider}/{resourceType}/{name}''"

text \<open>
  \<^verbatim>\<open>_get_resource_context\<close>: \<open>Inr None\<close> is the return value \<^verbatim>\<open>None\<close> (no multi-tenant
  context), \<open>Inl\<close> a raised exception. The argument is \<^verbatim>\<open>context.request_context\<close>.
\<close>

definition get_resource_context :: "dict option \<Rightarrow> exn + AzureResourceContext option" where
  "get_resource_context request_context =
     (case request_context of
        None \<Rightarrow> Inr None
      | Some rc \<Rightarrow>
          if rc = [] then Inr None
          else
            let cl = str_lower (dict_get_default rc ''cloud'' '''') in
            if cl \<noteq> ''azure'' then Inr None
            else
              (case dict_get rc ''resource_id'' of
                 None \<Rightarrow> Inl (ValueError (missing_field_message ''resource_id''))
               | Some rid \<Rightarrow>
                   if rid = [] then Inl (ValueError (missing_field_message ''resource_id''))
                   else
                     (case dict_get rc ''access_token'' of
                        None \<Rightarrow> Inl (ValueError (missing_field_message ''access_token''))
                      | Some tok \<Rightarrow>
                          if tok = [] then Inl (ValueError (missing_field_message ''access_token''))
                          else
                            (case parse_resource_id rid of
                               None \<Rightarrow> Inl (ValueError (parse_failure_message rid))
                             | Some (sub, rg, name) \<Rightarrow>
                                 Inr (Some \<lparr>cloud = cl, resource_id = rid, access_token = tok,
                                            subscription_id = sub, resource_group = rg,
                                            resource_name = name,
                                            tenant_id = dict_get rc ''tenant_id''\<rparr>)))))"

section \<open>The executors\<close>

text \<open>
  The dictionary an executor returns. The local executor fills it with an integer and two
  strings; the remote executor copies \<^verbatim>\<open>exit_code\<close> and \<^verbatim>\<open>logs\<close> from the result object of
  the Azure client, where either may be \<^verbatim>\<open>None\<close>. So the exit code and the standard output
  are optional values, \<open>None\<close> being Python's \<^verbatim>\<open>None\<close>.
\<close>

record CommandResult =
  exit_code :: "int option"
  stdout :: "string option"
  stderr :: string

text \<open>
  What the two executors call outside this repository is a parameter of the model:
  \<^item> \<open>shlex_split\<close> is \<^verbatim>\<open>shlex.split\<close>, which returns the tokens or raises;
  \<^item> \<open>subprocess_run\<close> is \<^verbatim>\<open>subprocess.run(command, capture_output=True, text=True, timeout=60)\<close>:
    it returns the completed process (return code, stdout, stderr) or raises,
    \<open>TimeoutExpired\<close> after the 60 seconds;
  \<^item> \<open>azure_sdk_installed\<close> says whether the three imports of the Azure client library succeed;
  \<^item> \<open>run_command\<close> is everything inside the second \<^verbatim>\<open>try\<close> of the remote executor up to
    \<^verbatim>\<open>poller.result(timeout=300)\<close>: building the credential from the access token and the
    client for the subscription, \<^verbatim>\<open>begin_run_command\<close> on the resource group and the resource
    name with the command, and waiting for the result. Either a step raises, or the wait
    returns an object. The wait returns when the operation has ended, and, as the client
    library documents it, also when the 300 seconds are over, with the result available
    then; \<open>operation_state\<close> says which it was and whether the operation succeeded. The
    executor never looks at that state: it reads the attributes \<^verbatim>\<open>exit_code\<close> and \<^verbatim>\<open>logs\<close> of
    the object, each of which the object may lack (\<open>NoAttribute\<close>, also when the object is
    \<^verbatim>\<open>None\<close>) or have, with a value or with \<^verbatim>\<open>None\<close>;
  \<^item> \<open>json_loads\<close> is \<^verbatim>\<open>json.loads\<close> on a string, which returns the decoded value or
    raises: \<^verbatim>\<open>JSONDecodeError\<close> for a text that is not JSON, and also \<^verbatim>\<open>RecursionError\<close> for a
    text nested too deeply and \<^verbatim>\<open>ValueError\<close> for an integer literal of more than 4300
    digits.
  Exceptions outside the class \<^verbatim>\<open>Exception\<close> (an interrupt, an exit) are not modelled.
\<close>

datatype json =
    JNull
  | JBool bool
  | JInt int
  | JStr string
  | JList "json list"
  | JDict "(string \<times> json) list"

record CompletedProcess =
  returncode :: int
  process_stdout :: string
  process_stderr :: string

datatype 'a attribute = NoAttribute | Attribute "'a option"

record RunCommandResult =
  result_exit_code :: "int attribute"
  result_logs :: "string attribute"

datatype operation_state = Succeeded | NotSucceeded | StillRunning

datatype remote_outcome =
    RemoteRaised exn
  | RemoteReturned operation_state RunCommandResult

record environment =
  shlex_split :: "string \<Rightarrow> exn + string list"
  subprocess_run :: "string list \<Rightarrow> exn + CompletedProcess"
  azure_sdk_installed :: bool
  run_command :: "string \<Rightarrow> string \<Rightarrow> string \<Rightarrow> string \<Rightarrow> string \<Rightarrow> remote_outcome"
  json_loads :: "string \<Rightarrow> exn + json"

definition sdk_missing_message :: string where
  "sdk_missing_message =
     ''azure-mgmt-containerservice package is required for Azure multi-tenant execution. '' @
     ''Install it with: pip install azure-mgmt-containerservice''"

definition execute_kubectl_via_azure_sdk ::
  "environment \<Rightarrow> AzureResourceContext \<Rightarrow> string \<Rightarrow> exn + CommandResult" where
  "execute_kubectl_via_azure_sdk env azure_ctx kubectl_args =
     (if \<not> azure_sdk_installed env then Inl (ImportError sdk_missing_message)
      else
        (case run_command env (access_token azure_ctx) (subscription_id azure_ctx)
                (resource_group azure_ctx) (resource_name azure_ctx)
                (''kubectl '' @ kubectl_args) of
           RemoteReturned state result \<Rightarrow>
             Inr \<lparr>exit_code = (case result_exit_code result of
                                 Attribute v \<Rightarrow> v | NoAttribute \<Rightarrow> Some 0),
                  stdout = (case result_logs result of
                              Attribute v \<Rightarrow> v | NoAttribute \<Rightarrow> Some ''''),
                  stderr = ''''\<rparr>
         | RemoteRaised e \<Rightarrow>
             Inr \<lparr>exit_code = Some (- 1), stdout = Some '''',
                  stderr = ''Azure SDK RunCommand failed: '' @ str_exn e\<rparr>))"

definition execute_kubectl_locally :: "environment \<Rightarrow> string \<Rightarrow> exn + CommandResult" where
  "execute_kubectl_locally env kubectl_args =
     (case (case shlex_split env kubectl_args of
              Inl e \<Rightarrow> Inl e
            | Inr tokens \<Rightarrow> subprocess_run env (''kubectl'' # tokens)) of
        Inr result \<Rightarrow>
          Inr \<lparr>exit_code = Some (returncode result), stdout = Some (process_stdout result),
               stderr = process_stderr result\<rparr>
      | Inl (TimeoutExpired m) \<Rightarrow>
          Inr \<lparr>exit_code = Some (- 1), stdout = Some '''',
               stderr = ''Command timed out after 60 seconds: kubectl '' @ kubectl_args\<rparr>
      | Inl e \<Rightarrow>
          Inr \<lparr>exit_code = Some (- 1), stdout = Some '''',
               stderr = ''Failed to execute kubectl command: '' @ str_exn e\<rparr>)"

section \<open>CallKubectl\<close>

text \<open>
  Modelled from the spec: \<^verbatim>\<open>StructuredToolResult\<close> and \<^verbatim>\<open>StructuredToolResultStatus\<close> of
  \<^verbatim>\<open>holmes.core.tools\<close>, which are imported and not defined in these files: a status
  (success or error), the data of a success or the message of an error, the return code
  when there is one, and the parameters of the invocation. A field the constructor call
  leaves out is \<open>None\<close>.
\<close>

datatype StructuredToolResultStatus = SUCCESS | ERROR

record StructuredToolResult =
  status :: StructuredToolResultStatus
  error :: "string option"
  data :: "json option"
  params :: dict
  return_code :: "int option"

text \<open>
  \<^verbatim>\<open>_parse_kubectl_output\<close>. Of the exceptions of \<^verbatim>\<open>json.loads\<close> only \<^verbatim>\<open>JSONDecodeError\<close> is
  caught; any other leaves the function.
\<close>

definition parse_kubectl_output :: "environment \<Rightarrow> string option \<Rightarrow> exn + json" where
  "parse_kubectl_output env out =
     (case out of
        None \<Rightarrow> Inr (JDict [(''output'', JStr '''')])
      | Some text \<Rightarrow>
          if text = [] \<or> str_strip text = [] then Inr (JDict [(''output'', JStr '''')])
          else if startswith (str_strip text) ''{'' \<or> startswith (str_strip text) ''[''
          then (case json_loads env text of
                  Inr v \<Rightarrow> Inr v
                | Inl (JSONDecodeError m) \<Rightarrow> Inr (JDict [(''output'', JStr text)])
                | Inl e \<Rightarrow> Inl e)
          else Inr (JDict [(''output'', JStr text)]))"

text \<open>
  What an invocation does besides returning is recorded as a list of events: the warning
  of the security check and the calls of the two executors, in order. The other logging
  calls take no part in the control flow and are left out.
\<close>

datatype event =
    LogWarning string
  | ExecuteViaAzureSdk AzureResourceContext string
  | ExecuteLocally string

fun is_executor_call :: "event \<Rightarrow> bool" where
  "is_executor_call (LogWarning m) = False"
| "is_executor_call (ExecuteViaAzureSdk c a) = True"
| "is_executor_call (ExecuteLocally a) = True"

definition dangerous_commands :: "string list" where
  "dangerous_commands = [''delete'', ''apply'', ''create'', ''patch'', ''replace'', ''edit'']"

definition missing_args_message :: string where
  "missing_args_message =
     ''Missing required parameter '' @ [CHR 0x27] @ ''args'' @ [CHR 0x27] @
     ''. Please provide kubectl command arguments.''"

text \<open>
  The security check of \<^verbatim>\<open>_invoke\<close>, for a list of commands taken as dangerous:
  \<^verbatim>\<open>kubectl_args.split()[0].lower()\<close> is compared with the list and a warning is logged.
\<close>

definition security_check :: "string list \<Rightarrow> string \<Rightarrow> exn + event list" where
  "security_check dangerous kubectl_args =
     (case (if kubectl_args \<noteq> []
            then (case str_split kubectl_args of
                    [] \<Rightarrow> Inl (IndexError ''list index out of range'')
                  | w # ws \<Rightarrow> Inr (str_lower w))
            else Inr '''') of
        Inl e \<Rightarrow> Inl e
      | Inr first_word \<Rightarrow>
          Inr (if first_word \<in> set dangerous
               then [LogWarning (''Attempted to execute potentially dangerous kubectl command: ''
                                 @ first_word)]
               else []))"

text \<open>
  The end of \<^verbatim>\<open>_invoke\<close>: the result of an executor becomes the result of the tool.
  \<^verbatim>\<open>_parse_kubectl_output\<close> is called outside every \<^verbatim>\<open>try\<close>, so what it raises leaves
  \<^verbatim>\<open>_invoke\<close>. An exit code \<^verbatim>\<open>None\<close> is different from 0 and prints as \<^verbatim>\<open>None\<close>.
\<close>

definition str_exit_code :: "int option \<Rightarrow> string" where
  "str_exit_code c = (case c of None \<Rightarrow> ''None'' | Some n \<Rightarrow> str_int n)"

definition command_result ::
  "environment \<Rightarrow> dict \<Rightarrow> CommandResult \<Rightarrow> exn + StructuredToolResult" where
  "command_result env ps result =
     (if exit_code result \<noteq> Some 0
      then Inr \<lparr>status = ERROR,
                error = Some (''kubectl command failed (exit code ''
                              @ str_exit_code (exit_code result) @ ''): '' @ stderr result),
                data = None, params = ps, return_code = exit_code result\<rparr>
      else (case parse_kubectl_output env (stdout result) of
              Inl e \<Rightarrow> Inl e
            | Inr v \<Rightarrow>
                Inr \<lparr>status = SUCCESS, error = None, data = Some v,
                     params = ps, return_code = exit_code result\<rparr>))"

text \<open>
  \<^verbatim>\<open>_invoke\<close>, with the list of dangerous commands as an argument. It returns the result
  or the exception that leaves it, and the events.
\<close>

definition invoke_with ::
  "string list \<Rightarrow> environment \<Rightarrow> dict \<Rightarrow> dict option
     \<Rightarrow> (exn + StructuredToolResult) \<times> event list" where
  "invoke_with dangerous env ps request_context =
     (let kubectl_args = str_strip (dict_get_default ps ''args'' '''') in
      if kubectl_args = []
      then (Inr \<lparr>status = ERROR, error = Some missing_args_message, data = None,
                 params = ps, return_code = None\<rparr>, [])
      else
        (case security_check dangerous kubectl_args of
           Inl e \<Rightarrow> (Inl e, [])
         | Inr warned \<Rightarrow>
             (case get_resource_context request_context of
                Inl e \<Rightarrow> (Inl e, warned)
              | Inr azure_ctx \<Rightarrow>
                  let (executed, call) =
                        (case azure_ctx of
                           Some c \<Rightarrow> (execute_kubectl_via_azure_sdk env c kubectl_args,
                                      ExecuteViaAzureSdk c kubectl_args)
                         | None \<Rightarrow> (execute_kubectl_locally env kubectl_args,
                                    ExecuteLocally kubectl_args))
                  in (case executed of
                        Inl (ImportError m) \<Rightarrow>
                          (Inr \<lparr>status = ERROR, error = Some m, data = None,
                                params = ps, return_code = None\<rparr>, warned @ [call])
                      | Inl (NotImplementedError m) \<Rightarrow>
                          (Inr \<lparr>status = ERROR, error = Some m, data = None,
                                params = ps, return_code = None\<rparr>, warned @ [call])
                      | Inl e \<Rightarrow>
                          (Inr \<lparr>status = ERROR,
                                error = Some (''Failed to execute kubectl command: '' @ str_exn e),
                                data = None, params = ps, return_code = None\<rparr>, warned @ [call])
                      | Inr result \<Rightarrow>
                          (command_result env ps result, warned @ [call])))))"

definition invoke ::
  "environment \<Rightarrow> dict \<Rightarrow> dict option \<Rightarrow> (exn + StructuredToolResult) \<times> event list" where
  "invoke = invoke_with dangerous_commands"

section \<open>Example environments\<close>

text \<open>
  Two environments after the mocks of \<^verbatim>\<open>tests/plugins/toolsets/test_aks_toolset.py\<close> (a local
  kubectl that fails with return code 1, and one that prints a JSON document), and the
  valid request context of the tests. Further: a local kubectl that runs into the
  timeout; a local kubectl that prints 100000 opening brackets, on which \<^verbatim>\<open>json.loads\<close>
  raises \<^verbatim>\<open>RecursionError\<close>; a cluster whose run command ends without success and leaves
  \<^verbatim>\<open>exit_code\<close> and \<^verbatim>\<open>logs\<close> at \<^verbatim>\<open>None\<close>; a cluster whose run command completes with a result
  object whose \<^verbatim>\<open>exit_code\<close> and \<^verbatim>\<open>logs\<close> are \<^verbatim>\<open>None\<close>; and a cluster whose run command
  completes with exit code 1.
\<close>

definition mock_local_failure :: environment where
  "mock_local_failure =
     \<lparr>shlex_split = (\<lambda>s. Inr (str_split s)),
      subprocess_run = (\<lambda>c. Inr \<lparr>returncode = 1, process_stdout = '''',
                                   process_stderr = ''Error: kubectl not found''\<rparr>),
      azure_sdk_installed = False,
      run_command = (\<lambda>tok sub rg name c. RemoteRaised (OtherException ''no cluster'')),
      json_loads = (\<lambda>s. Inl (JSONDecodeError ''Expecting value''))\<rparr>"

definition mock_local_success :: environment where
  "mock_local_success =
     \<lparr>shlex_split = (\<lambda>s. Inr (str_split s)),
      subprocess_run = (\<lambda>c. Inr \<lparr>returncode = 0,
                                   process_stdout = ''{\"apiVersion\": \"v1\"}'',
                                   process_stderr = ''''\<rparr>),
      azure_sdk_installed = False,
      run_command = (\<lambda>tok sub rg name c. RemoteRaised (OtherException ''no cluster'')),
      json_loads = (\<lambda>s. if s = ''{\"apiVersion\": \"v1\"}''
                         then Inr (JDict [(''apiVersion'', JStr ''v1'')])
                         else Inl (JSONDecodeError ''Expecting value''))\<rparr>"


definition deeply_nested :: string where
  "deeply_nested = replicate 100000 (CHR ''['')"

definition recursion_message :: string where
  "recursion_message =
     ''maximum recursion depth exceeded while decoding a JSON array from a unicode string''"

definition mock_local_deeply_nested :: environment where
  "mock_local_deeply_nested =
     \<lparr>shlex_split = (\<lambda>s. Inr (str_split s)),
      subprocess_run = (\<lambda>c. Inr \<lparr>returncode = 0, process_stdout = deeply_nested,
                                   process_stderr = ''''\<rparr>),
      azure_sdk_installed = False,
      run_command = (\<lambda>tok sub rg name c. RemoteRaised (OtherException ''no cluster'')),
      json_loads = (\<lambda>s. if s = deeply_nested then Inl (RecursionError recursion_message)
                         else Inl (JSONDecodeError ''Expecting value''))\<rparr>"


definition mock_remote_none_fields :: environment where
  "mock_remote_none_fields =
     \<lparr>shlex_split = (\<lambda>s. Inr (str_split s)),
      subprocess_run = (\<lambda>c. Inl (OtherException ''kubectl is not installed'')),
      azure_sdk_installed = True,
      run_command = (\<lambda>tok sub rg name c.
                       RemoteReturned Succeeded
                         \<lparr>result_exit_code = Attribute None, result_logs = Attribute None\<rparr>),
      json_loads = (\<lambda>s. Inl (JSONDecodeError ''Expecting value''))\<rparr>"


definition valid_request_context :: dict where
  "valid_request_context =
     [(''cloud'', ''azure''),
      (''resource_id'', ''/subscriptions/sub-123/resourceGroups/rg-test/providers/Microsoft.ContainerService/managedClusters/cluster-test''),
      (''access_token'', ''token-123''),
      (''tenant_id'', ''tenant-123'')]"

section \<open>The grammar of resource identifiers\<close>

text \<open>
  The form \<^verbatim>\<open>/subscriptions/S/resourceGroups/G/providers/P/T/N\<close> in words: the three keywords
  are read up to case, and each of the five segments is a non-empty run of characters
  other than the slash.
\<close>

definition nonslash :: "string \<Rightarrow> bool" where
  "nonslash x \<longleftrightarrow> x \<noteq> [] \<and> CHR ''/'' \<notin> set x"

definition form5 ::
  "string \<Rightarrow> string \<Rightarrow> string \<Rightarrow> string \<Rightarrow> string \<Rightarrow> string \<Rightarrow> bool" where
  "form5 s S G P T N \<longleftrightarrow>
     (\<exists>k1 k2 k3.
        s = k1 @ S @ k2 @ G @ k3 @ P @ ''/'' @ T @ ''/'' @ N \<and>
        str_lower k1 = str_lower ''/subscriptions/'' \<and>
        str_lower k2 = str_lower ''/resourceGroups/'' \<and>
        str_lower k3 = str_lower ''/providers/'' \<and>
        nonslash S \<and> nonslash G \<and> nonslash P \<and> nonslash T \<and> nonslash N)"

definition five_segment_form :: "string \<Rightarrow> string \<Rightarrow> string \<Rightarrow> string \<Rightarrow> bool" where
  "five_segment_form s S G N \<longleftrightarrow> (\<exists>P T. form5 s S G P T N)"

section \<open>The pattern accepts exactly the grammar\<close>

lemma lower_char_slash: "lower_char c = CHR ''/'' \<longleftrightarrow> c = CHR ''/''"
proof
  assume h: "lower_char c = CHR ''/''"
  show "c = CHR ''/''"
  proof (rule ccontr)
    assume n: "c \<noteq> CHR ''/''"
    define m where "m = (of_char c :: nat)"
    have c: "(65 \<le> m \<and> m \<le> 90) \<or> (192 \<le> m \<and> m \<le> 222 \<and> m \<noteq> 215)"
      using h n unfolding lower_char_def Let_def m_def by (simp split: if_splits)
    with h have e: "char_of (m + 32) = CHR ''/''"
      unfolding lower_char_def Let_def m_def by simp
    from c have lt: "m + 32 < 256" and ge: "65 \<le> m" by linarith+
    have "(of_char (char_of (m + 32) :: char) :: nat) = (m + 32) mod 256" by (rule of_char_of)
    with e lt have "m + 32 = 47" by simp
    with ge show False by linarith
  qed
next
  assume "c = CHR ''/''" then show "lower_char c = CHR ''/''" by (simp add: lower_char_def)
qed

lemma match_literal_sound:
  "match_literal p s = Some r \<Longrightarrow> \<exists>k. s = k @ r \<and> str_lower k = str_lower p"
proof (induction p s rule: match_literal.induct)
  case (1 s) then show ?case by (simp add: str_lower_def)
next
  case (2 p ps) then show ?case by simp
next
  case (3 p ps c cs)
  from "3.prems" have e: "lower_char c = lower_char p" and m: "match_literal ps cs = Some r"
    by (auto split: if_splits)
  from "3.IH"[OF e m] obtain k where "cs = k @ r" "str_lower k = str_lower ps" by blast
  with e have "c # cs = (c # k) @ r \<and> str_lower (c # k) = str_lower (p # ps)"
    by (simp add: str_lower_def)
  then show ?case by blast
qed

lemma match_literal_complete:
  "str_lower k = str_lower p \<Longrightarrow> match_literal p (k @ r) = Some r"
proof (induction p arbitrary: k)
  case Nil then show ?case by (simp add: str_lower_def)
next
  case (Cons a p)
  then obtain c k' where k: "k = c # k'" by (cases k) (auto simp: str_lower_def)
  with Cons.prems have "lower_char c = lower_char a" "str_lower k' = str_lower p"
    by (auto simp: str_lower_def)
  with Cons.IH k show ?case by simp
qed

lemma match_segment_sound:
  assumes a: "match_segment s = Some (g, r)"
  shows "s = g @ r \<and> nonslash g \<and> (r = [] \<or> hd r = CHR ''/'')"
proof -
  let ?P = "\<lambda>c. c \<noteq> CHR ''/''"
  from a have g: "g = takeWhile ?P s" and r: "r = dropWhile ?P s" and ne: "g \<noteq> []"
    by (auto simp: match_segment_def split: list.splits)
  have "s = g @ r" using g r by simp
  moreover have "CHR ''/'' \<notin> set g" using g by (auto dest: set_takeWhileD)
  moreover have "r = [] \<or> hd r = CHR ''/''" using r hd_dropWhile[of ?P s] by auto
  ultimately show ?thesis using ne by (simp add: nonslash_def)
qed

lemma match_segment_complete:
  assumes "nonslash g" "r = [] \<or> hd r = CHR ''/''"
  shows "match_segment (g @ r) = Some (g, r)"
proof -
  let ?P = "\<lambda>c. c \<noteq> CHR ''/''"
  from assms(1) have all: "\<forall>x\<in>set g. ?P x" and ne: "g \<noteq> []" by (auto simp: nonslash_def)
  from assms(2) have t: "takeWhile ?P r = []" and d: "dropWhile ?P r = r" by (cases r; auto)+
  from all t have "takeWhile ?P (g @ r) = g" by simp
  moreover from all d have "dropWhile ?P (g @ r) = r" by simp
  ultimately show ?thesis using ne by (cases g) (simp_all add: match_segment_def)
qed

lemma lower_slash_hd:
  assumes "str_lower k = str_lower (CHR ''/'' # p)"
  shows "hd (k @ r) = CHR ''/''"
proof -
  from assms obtain c k' where k: "k = c # k'" by (cases k) (auto simp: str_lower_def)
  with assms have "lower_char c = lower_char (CHR ''/'')" by (simp add: str_lower_def)
  also have "lower_char (CHR ''/'') = CHR ''/''" by (simp add: lower_char_slash)
  finally have "c = CHR ''/''" by (simp add: lower_char_slash)
  with k show ?thesis by simp
qed

lemma lower_slash_single:
  assumes "str_lower k = str_lower ''/''"
  shows "k = ''/''"
proof -
  have l: "lower_char (CHR ''/'') = CHR ''/''" by (simp add: lower_char_slash)
  from assms obtain c where k: "k = [c]" by (cases k) (auto simp: str_lower_def)
  with assms l have "lower_char c = CHR ''/''" by (simp add: str_lower_def)
  then have "c = CHR ''/''" by (simp add: lower_char_slash)
  with k show ?thesis by simp
qed

lemma pattern_sound:
  assumes a: "RESOURCE_ID_PATTERN s = Some (S, G, P, T, N)"
  shows "form5 s S G P T N"
proof -
  from a obtain r1 r2 r3 r4 r5 r6 r7 r8 r9 r10 where
    m1: "match_literal ''/subscriptions/'' s = Some r1" and
    m2: "match_segment r1 = Some (S, r2)" and
    m3: "match_literal ''/resourceGroups/'' r2 = Some r3" and
    m4: "match_segment r3 = Some (G, r4)" and
    m5: "match_literal ''/providers/'' r4 = Some r5" and
    m6: "match_segment r5 = Some (P, r6)" and
    m7: "match_literal ''/'' r6 = Some r7" and
    m8: "match_segment r7 = Some (T, r8)" and
    m9: "match_literal ''/'' r8 = Some r9" and
    m10: "match_segment r9 = Some (N, r10)" and
    e: "match_end r10"
    unfolding RESOURCE_ID_PATTERN_def
    by (auto simp: bind_eq_Some_conv split: if_splits)
  from match_literal_sound[OF m1] obtain k1 where
    k1: "s = k1 @ r1" "str_lower k1 = str_lower ''/subscriptions/''" by blast
  from match_literal_sound[OF m3] obtain k2 where
    k2: "r2 = k2 @ r3" "str_lower k2 = str_lower ''/resourceGroups/''" by blast
  from match_literal_sound[OF m5] obtain k3 where
    k3: "r4 = k3 @ r5" "str_lower k3 = str_lower ''/providers/''" by blast
  from match_literal_sound[OF m7] obtain k4 where
    k4: "r6 = k4 @ r7" "str_lower k4 = str_lower ''/''" by blast
  from match_literal_sound[OF m9] obtain k5 where
    k5: "r8 = k5 @ r9" "str_lower k5 = str_lower ''/''" by blast
  note s2 = match_segment_sound[OF m2] and s4 = match_segment_sound[OF m4]
    and s6 = match_segment_sound[OF m6] and s8 = match_segment_sound[OF m8]
    and s10 = match_segment_sound[OF m10]
  from s10 e have r10: "r10 = []" by (auto simp: match_end_def)
  have k4': "k4 = ''/''" using k4(2) by (rule lower_slash_single)
  have k5': "k5 = ''/''" using k5(2) by (rule lower_slash_single)
  have "s = k1 @ S @ k2 @ G @ k3 @ P @ ''/'' @ T @ ''/'' @ N"
    using k1(1) k2(1) k3(1) k4(1) k5(1) s2 s4 s6 s8 s10 r10 k4' k5' by simp
  then show ?thesis
    unfolding form5_def using k1(2) k2(2) k3(2) s2 s4 s6 s8 s10 by blast
qed

lemma pattern_complete:
  assumes "form5 s S G P T N"
  shows "RESOURCE_ID_PATTERN s = Some (S, G, P, T, N)"
proof -
  from assms obtain k1 k2 k3 where
    s: "s = k1 @ S @ k2 @ G @ k3 @ P @ ''/'' @ T @ ''/'' @ N" and
    k1: "str_lower k1 = str_lower ''/subscriptions/''" and
    k2: "str_lower k2 = str_lower ''/resourceGroups/''" and
    k3: "str_lower k3 = str_lower ''/providers/''" and
    n: "nonslash S" "nonslash G" "nonslash P" "nonslash T" "nonslash N"
    unfolding form5_def by blast
  have m1: "match_literal ''/subscriptions/'' s
              = Some (S @ k2 @ G @ k3 @ P @ ''/'' @ T @ ''/'' @ N)"
    unfolding s by (rule match_literal_complete[OF k1])
  have m2: "match_segment (S @ k2 @ G @ k3 @ P @ ''/'' @ T @ ''/'' @ N)
              = Some (S, k2 @ G @ k3 @ P @ ''/'' @ T @ ''/'' @ N)"
    by (rule match_segment_complete[OF n(1)]) (rule disjI2, rule lower_slash_hd[OF k2])
  have m3: "match_literal ''/resourceGroups/'' (k2 @ G @ k3 @ P @ ''/'' @ T @ ''/'' @ N)
              = Some (G @ k3 @ P @ ''/'' @ T @ ''/'' @ N)"
    by (rule match_literal_complete[OF k2])
  have m4: "match_segment (G @ k3 @ P @ ''/'' @ T @ ''/'' @ N)
              = Some (G, k3 @ P @ ''/'' @ T @ ''/'' @ N)"
    by (rule match_segment_complete[OF n(2)]) (rule disjI2, rule lower_slash_hd[OF k3])
  have m5: "match_literal ''/providers/'' (k3 @ P @ ''/'' @ T @ ''/'' @ N)
              = Some (P @ ''/'' @ T @ ''/'' @ N)"
    by (rule match_literal_complete[OF k3])
  have m6: "match_segment (P @ ''/'' @ T @ ''/'' @ N) = Some (P, ''/'' @ T @ ''/'' @ N)"
    by (rule match_segment_complete[OF n(3)]) simp
  have m7: "match_literal ''/'' (''/'' @ T @ ''/'' @ N) = Some (T @ ''/'' @ N)"
    by (rule match_literal_complete) simp
  have m8: "match_segment (T @ ''/'' @ N) = Some (T, ''/'' @ N)"
    by (rule match_segment_complete[OF n(4)]) simp
  have m9: "match_literal ''/'' (''/'' @ N) = Some N"
    by (rule match_literal_complete) simp
  have m10: "match_segment N = Some (N, [])"
    using match_segment_complete[OF n(5), of "[]"] by simp
  show ?thesis
    unfolding RESOURCE_ID_PATTERN_def
    by (simp only: m1 m2 m3 m4 m5 m6 m7 m8 m9 m10 Option.bind.simps prod.case
          match_end_def simp_thms if_True)
qed

lemma form5_starts_with_slash:
  assumes "form5 s S G P T N"
  shows "hd s = CHR ''/''"
proof -
  from assms obtain k1 r where "s = k1 @ r" "str_lower k1 = str_lower ''/subscriptions/''"
    unfolding form5_def by blast
  then show ?thesis using lower_slash_hd[of k1 "''subscriptions/''" r] by simp
qed

lemma strip_Nil: "str_strip [] = []"
  by (simp add: str_strip_def)

lemma parse_resource_id_iff:
  "parse_resource_id s = Some (S, G, N) \<longleftrightarrow> five_segment_form (str_strip s) S G N"
proof
  assume "parse_resource_id s = Some (S, G, N)"
  then obtain P T where "RESOURCE_ID_PATTERN (str_strip s) = Some (S, G, P, T, N)"
    by (auto simp: parse_resource_id_def split: if_splits option.splits)
  then show "five_segment_form (str_strip s) S G N"
    unfolding five_segment_form_def using pattern_sound by blast
next
  assume "five_segment_form (str_strip s) S G N"
  then obtain P T where f: "form5 (str_strip s) S G P T N"
    unfolding five_segment_form_def by blast
  have "s \<noteq> []"
  proof
    assume "s = []"
    with f have "form5 [] S G P T N" by (simp add: strip_Nil)
    then show False by (auto simp: form5_def str_lower_def)
  qed
  with pattern_complete[OF f] show "parse_resource_id s = Some (S, G, N)"
    by (simp add: parse_resource_id_def)
qed

section \<open>The security check never raises on stripped arguments\<close>

lemma split_from_nonempty:
  "cur \<noteq> [] \<or> (\<exists>c\<in>set s. \<not> str_isspace c) \<Longrightarrow> split_from cur s \<noteq> []"
  by (induction s arbitrary: cur) auto

lemma strip_nonblank:
  assumes "str_strip x \<noteq> []"
  shows "\<exists>c\<in>set (str_strip x). \<not> str_isspace c"
proof -
  let ?z = "dropWhile str_isspace (rev (dropWhile str_isspace x))"
  from assms have z: "?z \<noteq> []" by (simp add: str_strip_def)
  then have "\<not> str_isspace (hd ?z)" by (rule hd_dropWhile)
  moreover from z have "hd ?z \<in> set (str_strip x)" by (simp add: str_strip_def)
  ultimately show ?thesis by blast
qed


lemma security_check_stripped:
  assumes "str_strip x \<noteq> []"
  shows "\<exists>w ws. str_split (str_strip x) = w # ws \<and>
           security_check D (str_strip x) =
             Inr (if str_lower w \<in> set D
                  then [LogWarning (''Attempted to execute potentially dangerous kubectl command: ''
                                    @ str_lower w)]
                  else [])"
proof -
  from strip_nonblank[OF assms] have "str_split (str_strip x) \<noteq> []"
    unfolding str_split_def by (intro split_from_nonempty) blast
  then obtain w ws where "str_split (str_strip x) = w # ws"
    by (cases "str_split (str_strip x)") auto
  with assms show ?thesis by (simp add: security_check_def)
qed

lemma security_check_no_call:
  assumes "security_check D a = Inr w"
  shows "filter is_executor_call w = []"
  using assms by (auto simp: security_check_def split: if_splits list.splits sum.splits)

lemma security_check_total:
  assumes "str_strip x \<noteq> []"
  obtains w where "security_check D (str_strip x) = Inr w" "filter is_executor_call w = []"
proof -
  from security_check_stripped[OF assms, of D] obtain w where
    w: "security_check D (str_strip x) = Inr w" by blast
  from security_check_no_call[OF w] w that show ?thesis by blast
qed

section \<open>What the output parser and the result assembly do\<close>

lemma strip_replicate:
  assumes "\<not> str_isspace c"
  shows "str_strip (replicate n c) = replicate n c"
proof -
  from assms have d: "dropWhile str_isspace (replicate n c) = replicate n c"
    by (simp add: dropWhile_replicate)
  show ?thesis unfolding str_strip_def d rev_replicate d by simp
qed

lemma startswith_replicate:
  assumes "0 < n"
  shows "startswith (replicate n c) [c]"
  using assms by (cases n) (simp_all add: startswith_def)

lemma deeply_nested_facts:
  "deeply_nested \<noteq> []"
  "str_strip deeply_nested = deeply_nested"
  "startswith deeply_nested ''[''"
proof -
  have n: "(0::nat) < 100000" by simp
  show "deeply_nested \<noteq> []"
    unfolding deeply_nested_def replicate_empty by simp
  show "str_strip deeply_nested = deeply_nested"
    unfolding deeply_nested_def by (rule strip_replicate) (simp add: str_isspace_def)
  show "startswith deeply_nested ''[''"
    unfolding deeply_nested_def by (rule startswith_replicate[OF n])
qed

text \<open>
  \<^verbatim>\<open>_parse_kubectl_output\<close> returns the empty record for no text or a blank one, the decoded
  value when the text begins with a brace or a bracket and decodes, and the text in a
  record when it begins otherwise or \<^verbatim>\<open>json.loads\<close> raises \<^verbatim>\<open>JSONDecodeError\<close>.
\<close>

lemma parse_kubectl_output_returns:
  "(out = None \<or> out = Some [] \<or> (\<exists>t. out = Some t \<and> str_strip t = []) \<longrightarrow>
      parse_kubectl_output env out = Inr (JDict [(''output'', JStr '''')])) \<and>
   (out = Some t \<and> str_strip t \<noteq> [] \<and>
    (startswith (str_strip t) ''{'' \<or> startswith (str_strip t) ''['') \<and>
    json_loads env t = Inr v \<longrightarrow>
      parse_kubectl_output env out = Inr v) \<and>
   (out = Some t \<and> str_strip t \<noteq> [] \<and>
    ((\<exists>m. json_loads env t = Inl (JSONDecodeError m)) \<or>
     \<not> (startswith (str_strip t) ''{'' \<or> startswith (str_strip t) ''['')) \<longrightarrow>
      parse_kubectl_output env out = Inr (JDict [(''output'', JStr t)]))"
proof (intro conjI impI)
  assume "out = None \<or> out = Some [] \<or> (\<exists>t. out = Some t \<and> str_strip t = [])"
  then show "parse_kubectl_output env out = Inr (JDict [(''output'', JStr '''')])"
    by (auto simp: parse_kubectl_output_def)
next
  assume h: "out = Some t \<and> str_strip t \<noteq> [] \<and>
    (startswith (str_strip t) ''{'' \<or> startswith (str_strip t) ''['') \<and>
    json_loads env t = Inr v"
  then have "t \<noteq> []" by (auto simp: strip_Nil)
  with h show "parse_kubectl_output env out = Inr v"
    by (auto simp: parse_kubectl_output_def)
next
  assume h: "out = Some t \<and> str_strip t \<noteq> [] \<and>
    ((\<exists>m. json_loads env t = Inl (JSONDecodeError m)) \<or>
     \<not> (startswith (str_strip t) ''{'' \<or> startswith (str_strip t) ''[''))"
  then have "t \<noteq> []" by (auto simp: strip_Nil)
  with h show "parse_kubectl_output env out = Inr (JDict [(''output'', JStr t)])"
    by (auto simp: parse_kubectl_output_def)
qed

text \<open>Any other exception of \<^verbatim>\<open>json.loads\<close> leaves \<^verbatim>\<open>_parse_kubectl_output\<close>.\<close>

lemma parse_kubectl_output_propagates:
  assumes "json_loads env text = Inl e" "\<forall>m. e \<noteq> JSONDecodeError m"
    and "str_strip text \<noteq> []"
    and "startswith (str_strip text) ''{'' \<or> startswith (str_strip text) ''[''"
  shows "parse_kubectl_output env (Some text) = Inl e"
proof -
  from assms(3) have "text \<noteq> []" by (auto simp: strip_Nil)
  with assms show ?thesis
    by (cases e) (auto simp: parse_kubectl_output_def)
qed

text \<open>
  Once the arguments are not blank and the context is extracted, \<^verbatim>\<open>_invoke\<close> returns what
  the end of \<^verbatim>\<open>_invoke\<close> makes of the result of the executor it chose.
\<close>

lemma invoke_result_of_executor:
  assumes ne: "str_strip (dict_get_default ps ''args'' '''') \<noteq> []"
    and g: "get_resource_context rc = Inr cx"
    and x: "(case cx of
               Some c \<Rightarrow> execute_kubectl_via_azure_sdk env c (str_strip (dict_get_default ps ''args'' ''''))
             | None \<Rightarrow> execute_kubectl_locally env (str_strip (dict_get_default ps ''args'' '''')))
            = Inr r"
  shows "fst (invoke env ps rc) = command_result env ps r"
proof -
  from security_check_total[OF ne, of dangerous_commands] obtain w where
    w: "security_check dangerous_commands (str_strip (dict_get_default ps ''args'' '''')) = Inr w"
    by blast
  show ?thesis
    using ne g x w
    by (cases cx) (simp_all add: invoke_def invoke_with_def Let_def)
qed

text \<open>
  Every object the remote wait returns, whatever the state of the operation, gives a
  result with an empty standard error.
\<close>

lemma remote_returned_result:
  assumes "azure_sdk_installed env"
    and "run_command env (access_token c) (subscription_id c) (resource_group c)
           (resource_name c) (''kubectl '' @ a) = RemoteReturned st res"
  shows "execute_kubectl_via_azure_sdk env c a =
           Inr \<lparr>exit_code = (case result_exit_code res of
                               Attribute v \<Rightarrow> v | NoAttribute \<Rightarrow> Some 0),
                stdout = (case result_logs res of
                            Attribute v \<Rightarrow> v | NoAttribute \<Rightarrow> Some ''''),
                stderr = ''''\<rparr>"
  using assms by (simp add: execute_kubectl_via_azure_sdk_def)

section \<open>Claims\<close>

text \<open>
  C1, as the claim states it, fails: the parser strips the string before it matches, so a
  string with a leading blank, which does not have the five-segment form, is parsed.
\<close>

theorem parse_resource_id_whole_string_counterexample:
  "parse_resource_id '' /subscriptions/a/resourceGroups/b/providers/c/d/e''
     = Some (''a'', ''b'', ''e'') \<and>
   \<not> five_segment_form '' /subscriptions/a/resourceGroups/b/providers/c/d/e'' ''a'' ''b'' ''e''"
proof
  show "parse_resource_id '' /subscriptions/a/resourceGroups/b/providers/c/d/e''
          = Some (''a'', ''b'', ''e'')"
    by (simp add: parse_resource_id_def RESOURCE_ID_PATTERN_def str_strip_def str_isspace_def
          lower_char_def match_segment_def match_end_def)
  show "\<not> five_segment_form '' /subscriptions/a/resourceGroups/b/providers/c/d/e''
          ''a'' ''b'' ''e''"
  proof
    assume "five_segment_form '' /subscriptions/a/resourceGroups/b/providers/c/d/e''
              ''a'' ''b'' ''e''"
    then obtain P T where
      "form5 '' /subscriptions/a/resourceGroups/b/providers/c/d/e'' ''a'' ''b'' P T ''e''"
      unfolding five_segment_form_def by blast
    from form5_starts_with_slash[OF this] show False by simp
  qed
qed

text \<open>
  C1, amended: \<^verbatim>\<open>_parse_resource_id\<close> returns the triple \<open>(S, G, N)\<close> if and only if the
  string with the whitespace at both ends removed has the five-segment form
  \<^verbatim>\<open>/subscriptions/S/resourceGroups/G/providers/P/T/N\<close>, read up to case, each segment a
  non-empty run of non-slash characters; it returns \<^verbatim>\<open>None\<close> for every other string, among
  them the empty string, \<^verbatim>\<open>/invalid/resource/id\<close>, \<^verbatim>\<open>/subscriptions/sub-123\<close> and
  \<^verbatim>\<open>not-a-resource-id\<close>, and it has no other outcome.
\<close>

theorem parse_resource_id_stripped_form:
  "(parse_resource_id s = Some (S, G, N) \<longleftrightarrow> five_segment_form (str_strip s) S G N) \<and>
   (parse_resource_id s = None \<longleftrightarrow> (\<forall>S' G' N'. \<not> five_segment_form (str_strip s) S' G' N')) \<and>
   parse_resource_id '''' = None \<and>
   parse_resource_id ''/invalid/resource/id'' = None \<and>
   parse_resource_id ''/subscriptions/sub-123'' = None \<and>
   parse_resource_id ''not-a-resource-id'' = None"
proof (intro conjI)
  show "parse_resource_id s = Some (S, G, N) \<longleftrightarrow> five_segment_form (str_strip s) S G N"
    by (rule parse_resource_id_iff)
  show "parse_resource_id s = None \<longleftrightarrow> (\<forall>S' G' N'. \<not> five_segment_form (str_strip s) S' G' N')"
  proof
    assume n: "parse_resource_id s = None"
    show "\<forall>S' G' N'. \<not> five_segment_form (str_strip s) S' G' N'"
    proof (intro allI notI)
      fix S' G' N' assume "five_segment_form (str_strip s) S' G' N'"
      then have "parse_resource_id s = Some (S', G', N')" by (simp add: parse_resource_id_iff)
      with n show False by simp
    qed
  next
    assume a: "\<forall>S' G' N'. \<not> five_segment_form (str_strip s) S' G' N'"
    show "parse_resource_id s = None"
    proof (cases "parse_resource_id s")
      case None then show ?thesis .
    next
      case (Some t)
      obtain S' G' N' where "t = (S', G', N')" by (cases t)
      with Some have "five_segment_form (str_strip s) S' G' N'"
        by (simp add: parse_resource_id_iff)
      with a show ?thesis by blast
    qed
  qed
  show "parse_resource_id '''' = None" by (simp add: parse_resource_id_def)
  show "parse_resource_id ''/invalid/resource/id'' = None"
    by (simp add: parse_resource_id_def RESOURCE_ID_PATTERN_def str_strip_def str_isspace_def
          lower_char_def)
  show "parse_resource_id ''/subscriptions/sub-123'' = None"
    by (simp add: parse_resource_id_def RESOURCE_ID_PATTERN_def str_strip_def str_isspace_def
          lower_char_def match_segment_def)
  show "parse_resource_id ''not-a-resource-id'' = None"
    by (simp add: parse_resource_id_def RESOURCE_ID_PATTERN_def str_strip_def str_isspace_def
          lower_char_def)
qed

theorem parse_resource_id_stripped_form_witness:
  "parse_resource_id ''/SUBSCRIPTIONS/sub-123/resourcegroups/rg-test/providers/Microsoft.ContainerService/managedClusters/cluster-test ''
     = Some (''sub-123'', ''rg-test'', ''cluster-test'') \<and>
   five_segment_form
     (str_strip ''/SUBSCRIPTIONS/sub-123/resourcegroups/rg-test/providers/Microsoft.ContainerService/managedClusters/cluster-test '')
     ''sub-123'' ''rg-test'' ''cluster-test''"
proof -
  have p: "parse_resource_id ''/SUBSCRIPTIONS/sub-123/resourcegroups/rg-test/providers/Microsoft.ContainerService/managedClusters/cluster-test ''
     = Some (''sub-123'', ''rg-test'', ''cluster-test'')"
    by code_simp
  with parse_resource_id_stripped_form
         [of "''/SUBSCRIPTIONS/sub-123/resourcegroups/rg-test/providers/Microsoft.ContainerService/managedClusters/cluster-test ''"
             "''sub-123''" "''rg-test''" "''cluster-test''"]
  show ?thesis by blast
qed

text \<open>
  C2, as the claim states it, fails: the extractor lowercases the \<^verbatim>\<open>cloud\<close> value before
  it compares, so \<^verbatim>\<open>AZURE\<close>, which is not the literal \<^verbatim>\<open>azure\<close>, is taken as the supported
  cloud and the missing \<^verbatim>\<open>resource_id\<close> raises.
\<close>

theorem get_resource_context_cloud_literal_counterexample:
  "dict_get [(''cloud'', ''AZURE'')] ''cloud'' = Some ''AZURE'' \<and> ''AZURE'' \<noteq> ''azure'' \<and>
   get_resource_context (Some [(''cloud'', ''AZURE'')])
     = Inl (ValueError (missing_field_message ''resource_id''))"
  by code_simp

text \<open>
  C2, amended: when the request context is absent or empty, or its \<^verbatim>\<open>cloud\<close> value (the empty
  string when the key is missing) is, once lowercased, different from \<^verbatim>\<open>azure\<close>,
  \<^verbatim>\<open>_get_resource_context\<close> returns \<^verbatim>\<open>None\<close> and does not raise, and \<^verbatim>\<open>_invoke\<close> with
  non-blank arguments calls the local executor and no other.
\<close>

theorem get_resource_context_not_azure:
  assumes "rc = None \<or> rc = Some [] \<or>
           (\<exists>d. rc = Some d \<and> str_lower (dict_get_default d ''cloud'' '''') \<noteq> ''azure'')"
  shows "get_resource_context rc = Inr None \<and>
         (str_strip (dict_get_default ps ''args'' '''') \<noteq> [] \<longrightarrow>
            filter is_executor_call (snd (invoke env ps rc))
              = [ExecuteLocally (str_strip (dict_get_default ps ''args'' ''''))])"
proof
  from assms show g: "get_resource_context rc = Inr None"
    by (auto simp: get_resource_context_def Let_def)
  show "str_strip (dict_get_default ps ''args'' '''') \<noteq> [] \<longrightarrow>
            filter is_executor_call (snd (invoke env ps rc))
              = [ExecuteLocally (str_strip (dict_get_default ps ''args'' ''''))]"
  proof
    assume ne: "str_strip (dict_get_default ps ''args'' '''') \<noteq> []"
    from security_check_total[OF ne, of dangerous_commands] obtain w where
      w: "security_check dangerous_commands (str_strip (dict_get_default ps ''args'' '''')) = Inr w"
         "filter is_executor_call w = []" by blast
    show "filter is_executor_call (snd (invoke env ps rc))
              = [ExecuteLocally (str_strip (dict_get_default ps ''args'' ''''))]"
      using ne w g
      by (simp add: invoke_def invoke_with_def Let_def split: sum.splits exn.splits)
  qed
qed

theorem get_resource_context_not_azure_witness:
  "get_resource_context (Some [(''cloud'', ''aws'')]) = Inr None \<and>
   filter is_executor_call
     (snd (invoke mock_local_failure [(''args'', ''get pods'')] (Some [(''cloud'', ''aws'')])))
     = [ExecuteLocally ''get pods'']"
proof -
  have h: "Some [(''cloud'', ''aws'')] = None \<or> Some [(''cloud'', ''aws'')] = Some [] \<or>
     (\<exists>d. Some [(''cloud'', ''aws'')] = Some d \<and>
          str_lower (dict_get_default d ''cloud'' '''') \<noteq> ''azure'')"
    by (simp add: dict_get_default_def str_lower_def lower_char_def)
  have a: "str_strip (dict_get_default [(''args'', ''get pods'')] ''args'' '''') = ''get pods''"
    by (simp add: dict_get_default_def str_strip_def str_isspace_def)
  from get_resource_context_not_azure[OF h, of "[(''args'', ''get pods'')]" mock_local_failure]
  show ?thesis by (simp add: a)
qed






text \<open>
  C5 is violated by the code: with exit code 0 and a standard output on which
  \<^verbatim>\<open>json.loads\<close> raises an exception other than \<^verbatim>\<open>JSONDecodeError\<close>, \<^verbatim>\<open>_invoke\<close> produces no
  result at all. The local kubectl prints 100000 opening brackets and returns 0; the
  \<^verbatim>\<open>RecursionError\<close> of \<^verbatim>\<open>json.loads\<close> leaves \<^verbatim>\<open>_parse_kubectl_output\<close> and then \<^verbatim>\<open>_invoke\<close>, after the
  local executor has run.
\<close>

theorem invoke_raises_on_deeply_nested_output:
  "invoke mock_local_deeply_nested [(''args'', ''get pods -o json'')] None
     = (Inl (RecursionError recursion_message), [ExecuteLocally ''get pods -o json''])"
proof -
  let ?ps = "[(''args'', ''get pods -o json'')]"
  have a: "str_strip (dict_get_default ?ps ''args'' '''') = ''get pods -o json''"
    by (simp add: dict_get_default_def str_strip_def str_isspace_def)
  have s: "security_check dangerous_commands ''get pods -o json'' = Inr []"
    by code_simp
  have g: "get_resource_context None = Inr None"
    by (simp add: get_resource_context_def)
  have x: "execute_kubectl_locally mock_local_deeply_nested ''get pods -o json''
             = Inr \<lparr>exit_code = Some 0, stdout = Some deeply_nested, stderr = ''''\<rparr>"
    by (simp add: execute_kubectl_locally_def mock_local_deeply_nested_def)
  have j: "json_loads mock_local_deeply_nested deeply_nested = Inl (RecursionError recursion_message)"
    by (simp add: mock_local_deeply_nested_def)
  have p: "parse_kubectl_output mock_local_deeply_nested (Some deeply_nested)
             = Inl (RecursionError recursion_message)"
    by (rule parse_kubectl_output_propagates[OF j]) (simp_all add: deeply_nested_facts)
  show ?thesis
    by (simp add: invoke_def invoke_with_def Let_def a s g x p command_result_def)
qed




text \<open>
  C7 is violated by the code: \<^verbatim>\<open>_parse_kubectl_output\<close> catches \<^verbatim>\<open>JSONDecodeError\<close> only. On a
  text of 100000 opening brackets \<^verbatim>\<open>json.loads\<close> raises \<^verbatim>\<open>RecursionError\<close>, and the function
  raises it instead of returning the record that holds the text.
\<close>

theorem parse_kubectl_output_raises_recursion_error:
  "parse_kubectl_output mock_local_deeply_nested (Some deeply_nested)
     = Inl (RecursionError recursion_message)"
proof (rule parse_kubectl_output_propagates)
  show "json_loads mock_local_deeply_nested deeply_nested = Inl (RecursionError recursion_message)"
    by (simp add: mock_local_deeply_nested_def)
  show "\<forall>m. RecursionError recursion_message \<noteq> JSONDecodeError m" by simp
  show "str_strip deeply_nested \<noteq> []" by (simp add: deeply_nested_facts)
  show "startswith (str_strip deeply_nested) ''{'' \<or> startswith (str_strip deeply_nested) ''[''"
    by (simp add: deeply_nested_facts)
qed

text \<open>
  C8: when the first whitespace-delimited word of the stripped arguments, lowercased, is
  one of \<^verbatim>\<open>delete\<close>, \<^verbatim>\<open>apply\<close>, \<^verbatim>\<open>create\<close>, \<^verbatim>\<open>patch\<close>, \<^verbatim>\<open>replace\<close>, \<^verbatim>\<open>edit\<close>, the security check of
  \<^verbatim>\<open>_invoke\<close> logs one warning and changes nothing else: the result (or the exception) and
  the executor calls are those of the same invocation with no command taken as
  dangerous.
\<close>

theorem security_check_only_warns:
  assumes a: "str_strip (dict_get_default ps ''args'' '''') = a"
    and ne: "a \<noteq> []"
    and w: "str_split a = w # ws"
    and d: "str_lower w \<in> set dangerous_commands"
  shows "fst (invoke env ps rc) = fst (invoke_with [] env ps rc) \<and>
         snd (invoke env ps rc) =
           LogWarning (''Attempted to execute potentially dangerous kubectl command: '' @ str_lower w)
           # snd (invoke_with [] env ps rc) \<and>
         filter is_executor_call (snd (invoke env ps rc)) = snd (invoke_with [] env ps rc)"
proof -
  let ?W = "LogWarning (''Attempted to execute potentially dangerous kubectl command: '' @ str_lower w)"
  have s1: "security_check dangerous_commands a = Inr [?W]"
    using ne w d by (simp add: security_check_def)
  have s0: "security_check [] a = Inr []"
    using ne w by (simp add: security_check_def)
  have f: "fst (invoke env ps rc) = fst (invoke_with [] env ps rc)"
    using a ne s1 s0
    by (simp add: invoke_def invoke_with_def Let_def split: sum.splits option.splits exn.splits)
  have s: "snd (invoke env ps rc) = ?W # snd (invoke_with [] env ps rc)"
    using a ne s1 s0
    by (simp add: invoke_def invoke_with_def Let_def split: sum.splits option.splits exn.splits)
  have c: "filter is_executor_call (snd (invoke_with [] env ps rc)) = snd (invoke_with [] env ps rc)"
    using a ne s0
    by (simp add: invoke_with_def Let_def split: sum.splits option.splits exn.splits)
  from f s c show ?thesis by simp
qed

theorem security_check_only_warns_witness:
  "fst (invoke mock_local_success [(''args'', ''Delete pod api'')] None)
     = fst (invoke_with [] mock_local_success [(''args'', ''Delete pod api'')] None) \<and>
   snd (invoke mock_local_success [(''args'', ''Delete pod api'')] None)
     = [LogWarning ''Attempted to execute potentially dangerous kubectl command: delete'',
        ExecuteLocally ''Delete pod api''] \<and>
   snd (invoke_with [] mock_local_success [(''args'', ''Delete pod api'')] None)
     = [ExecuteLocally ''Delete pod api'']"
proof -
  have a: "str_strip (dict_get_default [(''args'', ''Delete pod api'')] ''args'' '''') = ''Delete pod api''"
    by (simp add: dict_get_default_def str_strip_def str_isspace_def)
  have n: "''Delete pod api'' \<noteq> []" by simp
  have w: "str_split ''Delete pod api'' = ''Delete'' # [''pod'', ''api'']"
    by (simp add: str_split_def str_isspace_def)
  have l: "str_lower ''Delete'' = ''delete''" by code_simp
  have d: "str_lower ''Delete'' \<in> set dangerous_commands"
    unfolding l by (simp add: dangerous_commands_def)
  have e: "snd (invoke_with [] mock_local_success [(''args'', ''Delete pod api'')] None)
     = [ExecuteLocally ''Delete pod api'']"
    by code_simp
  from security_check_only_warns[OF a n w d, of mock_local_success None] l e
  show ?thesis by simp
qed



text \<open>
  C10 is violated by the code: the defaults 0 and the empty string are taken only when the
  result object lacks the attribute. A result object that has \<^verbatim>\<open>exit_code\<close> and \<^verbatim>\<open>logs\<close> with
  the value \<^verbatim>\<open>None\<close> gives a result with exit code \<^verbatim>\<open>None\<close> and output \<^verbatim>\<open>None\<close>, and \<^verbatim>\<open>_invoke\<close>
  reports an error with exit code \<^verbatim>\<open>None\<close>. The standard error is empty, as the claim says.
\<close>

theorem remote_none_fields_not_defaulted:
  "execute_kubectl_via_azure_sdk mock_remote_none_fields
     \<lparr>cloud = ''azure'',
      resource_id = ''/subscriptions/sub-123/resourceGroups/rg-test/providers/Microsoft.ContainerService/managedClusters/cluster-test'',
      access_token = ''token-123'', subscription_id = ''sub-123'', resource_group = ''rg-test'',
      resource_name = ''cluster-test'', tenant_id = Some ''tenant-123''\<rparr> ''get pods''
     = Inr \<lparr>exit_code = None, stdout = None, stderr = ''''\<rparr> \<and>
   fst (invoke mock_remote_none_fields [(''args'', ''get pods'')] (Some valid_request_context)) =
     Inr \<lparr>status = ERROR, error = Some ''kubectl command failed (exit code None): '',
          data = None, params = [(''args'', ''get pods'')], return_code = None\<rparr>"
  by code_simp

end
